theory Spec2Isabelle
  imports Complex_Main
begin

section \<open>The voice turn handler of \<^verbatim>\<open>app-ch.py\<close>\<close>

text \<open>
  The development embeds the three Socket.IO handlers of \<^verbatim>\<open>app-ch.py\<close>
  (\<^verbatim>\<open>handle_connect\<close>, \<^verbatim>\<open>handle_disconnect\<close>, \<^verbatim>\<open>handle_audio_data\<close>) as functions
  on an explicit world: the session registry, the lines of \<^verbatim>\<open>stats.jsonl\<close>, the events
  emitted to the client and the log. The collaborators the handler calls for one turn (the
  clock, the base64 decoder, the speech-to-text service, the prompt builder, the language
  model and the file system) are the fields of an environment record; each fallible call
  returns a sum whose left injection is the text of the exception raised. The payload of an
  \<^verbatim>\<open>audio_data\<close> event is any value a client can send; \<^verbatim>\<open>emit\<close> and the logger do not
  raise, and every call of a collaborator returns or raises.
\<close>

subsection \<open>Python values\<close>

text \<open>
  A Python \<^verbatim>\<open>str\<close> is a sequence of Unicode code points, so it is a list of naturals.
  Keys of dictionaries and event names are ASCII literals of the source and stay HOL strings.
  A Python \<^verbatim>\<open>float\<close> is idealised as a real number.
\<close>

type_synonym pystr = "nat list"

type_synonym bytes = "nat list"

definition ascii :: "string \<Rightarrow> pystr" where
  "ascii s = map of_char s"

text \<open>The code points for which \<^verbatim>\<open>str.isspace\<close> holds; \<^verbatim>\<open>str.strip()\<close> removes them.\<close>

definition isspace :: "nat \<Rightarrow> bool" where
  "isspace c \<longleftrightarrow>
     (9 \<le> c \<and> c \<le> 13) \<or> (28 \<le> c \<and> c \<le> 32) \<or> c = 133 \<or> c = 160 \<or> c = 5760 \<or>
     (8192 \<le> c \<and> c \<le> 8202) \<or> c = 8232 \<or> c = 8233 \<or> c = 8239 \<or> c = 8287 \<or> c = 12288"

definition strip :: "pystr \<Rightarrow> pystr" where
  "strip s = rev (dropWhile isspace (rev (dropWhile isspace s)))"

text \<open>\<^verbatim>\<open>round(x, 2)\<close>: to the nearest hundredth, a tie to the even neighbour.\<close>

definition round_half_even :: "real \<Rightarrow> int" where
  "round_half_even x =
     (let f = \<lfloor>x\<rfloor>; d = x - of_int f
      in if d < 1 / 2 then f else if 1 / 2 < d then f + 1 else if even f then f else f + 1)"

definition round2 :: "real \<Rightarrow> real" where
  "round2 x = of_int (round_half_even (x * 100)) / 100"

text \<open>\<^verbatim>\<open>int(x)\<close> on a float truncates towards zero.\<close>

definition py_int :: "real \<Rightarrow> int" where
  "py_int x = (if 0 \<le> x then \<lfloor>x\<rfloor> else \<lceil>x\<rceil>)"

text \<open>
  The payload of an inbound event is whatever JSON value (or binary blob) the client sent. A
  dictionary is an association list; \<^verbatim>\<open>d.get(k)\<close> is the first value stored for \<open>k\<close>, or
  \<^verbatim>\<open>None\<close>.
\<close>

datatype pyval = PNone | PBool bool | PInt int | PFloat real | PStr pystr | PBytes bytes
  | PList "pyval list" | PDict "(pystr \<times> pyval) list"

text \<open>The truth value of \<^verbatim>\<open>not v\<close> is \<open>\<not> truthy v\<close>.\<close>

fun truthy :: "pyval \<Rightarrow> bool" where
  "truthy PNone = False"
| "truthy (PBool b) = b"
| "truthy (PInt i) = (i \<noteq> 0)"
| "truthy (PFloat x) = (x \<noteq> 0)"
| "truthy (PStr s) = (s \<noteq> [])"
| "truthy (PBytes b) = (b \<noteq> [])"
| "truthy (PList l) = (l \<noteq> [])"
| "truthy (PDict d) = (d \<noteq> [])"

fun type_name :: "pyval \<Rightarrow> string" where
  "type_name PNone = ''NoneType''"
| "type_name (PBool b) = ''bool''"
| "type_name (PInt i) = ''int''"
| "type_name (PFloat x) = ''float''"
| "type_name (PStr s) = ''str''"
| "type_name (PBytes b) = ''bytes''"
| "type_name (PList l) = ''list''"
| "type_name (PDict d) = ''dict''"

text \<open>
  \<^verbatim>\<open>data.get(key)\<close>: only a dictionary has the method, on any other value the attribute
  lookup raises \<^verbatim>\<open>AttributeError\<close>.
\<close>

definition py_get :: "pyval \<Rightarrow> pystr \<Rightarrow> pystr + pyval" where
  "py_get data key =
     (case data of
        PDict d \<Rightarrow> Inr (case map_of d key of None \<Rightarrow> PNone | Some v \<Rightarrow> v)
      | _ \<Rightarrow>
          Inl (ascii ([CHR 0x27] @ type_name data @ [CHR 0x27] @
                 '' object has no attribute '' @ [CHR 0x27] @ ''get'' @ [CHR 0x27])))"

text \<open>The values that occur in the dictionaries the handler builds.\<close>

datatype json = JStr pystr | JInt int | JFloat real | JObj "(string \<times> json) list"

type_synonym pydict = "(string \<times> json) list"

subsection \<open>Sessions\<close>

text \<open>
  Modelled from the spec: the module \<^verbatim>\<open>utils.booking_state\<close> (the class of a Session,
  \<^verbatim>\<open>get_or_create_session\<close> and \<^verbatim>\<open>add_to_history\<close>) is not among the sources. The spec's
  data model gives a Session an id, an ordered append-only history of
  (user utterance, assistant reply) pairs and the booking state.
\<close>

record session =
  session_id :: pystr
  history :: "(pystr \<times> pystr) list"
  booking_state :: "(pystr \<times> pystr) list"

text \<open>
  Modelled from the spec: \<^verbatim>\<open>get_or_create(connection_id)\<close> returns the existing Session
  for the id if present; otherwise it creates and registers an empty Session.
\<close>

definition get_or_create_session ::
  "pystr \<Rightarrow> (pystr \<rightharpoonup> session) \<Rightarrow> session \<times> (pystr \<rightharpoonup> session)" where
  "get_or_create_session cid store =
     (case store cid of
        Some s \<Rightarrow> (s, store)
      | None \<Rightarrow>
          (let s = \<lparr>session_id = cid, history = [], booking_state = []\<rparr>
           in (s, store(cid \<mapsto> s))))"

text \<open>
  Modelled from the spec: \<^verbatim>\<open>add_to_history\<close> appends one (user utterance, assistant reply)
  pair at the end of the history.
\<close>

definition add_to_history :: "session \<Rightarrow> pystr \<Rightarrow> pystr \<Rightarrow> session" where
  "add_to_history s user_text bot_text = s\<lparr>history := history s @ [(user_text, bot_text)]\<rparr>"

subsection \<open>The world and the environment of one turn\<close>

datatype event = Emit (name: string) (payload: pydict)

record world =
  sessions :: "pystr \<rightharpoonup> session"
  stats_jsonl :: "pydict list"
  outbox :: "event list"
  log :: "(string \<times> pystr) list"

record latency_info =
  audio_conversion :: real
  vad_validation :: real
  silence_trimming :: real
  asr_transcription :: real
  llm_response :: real

text \<open>
  \<open>now E i\<close> is what the \<open>i\<close>-th call of \<^verbatim>\<open>time.time()\<close> in the turn returns (counted from
  0), \<open>open_stats E\<close> is \<open>Some e\<close> when opening or writing \<^verbatim>\<open>stats.jsonl\<close> raises \<open>e\<close>.
  The prompt builder and the language model belong to modules that are not among the
  sources; they are parameters here.
\<close>

record env =
  now :: "nat \<Rightarrow> real"
  b64decode :: "pyval \<Rightarrow> pystr + bytes"
  speech_to_text :: "bytes \<Rightarrow> pystr + pystr"
  build_booking_system_prompt :: "session \<Rightarrow> pystr + pystr"
  get_llm_response :: "pystr \<Rightarrow> pystr \<Rightarrow> pystr + pystr"
  open_stats :: "pystr option"
  strftime_now :: pystr

definition emit :: "string \<Rightarrow> pydict \<Rightarrow> world \<Rightarrow> world" where
  "emit ev data w = w\<lparr>outbox := outbox w @ [Emit ev data]\<rparr>"

definition logger :: "string \<Rightarrow> pystr \<Rightarrow> world \<Rightarrow> world" where
  "logger level msg w = w\<lparr>log := log w @ [(level, msg)]\<rparr>"

subsection \<open>The handlers\<close>

definition handle_connect :: "pystr \<Rightarrow> world \<Rightarrow> world" where
  "handle_connect request_sid w =
     emit ''status'' [(''message'', JStr (ascii ''Connected to server''))]
       (logger ''info'' (ascii ''Client connected: '' @ request_sid) w)"

definition handle_disconnect :: "pystr \<Rightarrow> world \<Rightarrow> world" where
  "handle_disconnect request_sid w =
     logger ''info'' (ascii ''Client disconnected: '' @ request_sid) w"

text \<open>The two fixed replies: the "could not understand" text and the "system busy" text.\<close>

definition unclear_text :: pystr where
  "unclear_text = [0xFF08, 0x542C, 0x4E0D, 0x6E05, 0xFF09]"

definition busy_text :: pystr where
  "busy_text = [0x7CFB, 0x7EDF, 0x7E41, 0x5FD9, 0x3002]"

text \<open>
  The body of the \<^verbatim>\<open>try\<close> block of \<^verbatim>\<open>handle_audio_data\<close>. It returns \<open>Inl e\<close> when an
  exception with text \<open>e\<close> leaves the block and \<open>Inr ()\<close> when the block returns, together
  with the world and the local \<^verbatim>\<open>latency_info\<close> as they are at that moment.
\<close>

definition audio_turn ::
  "env \<Rightarrow> pystr \<Rightarrow> pyval \<Rightarrow> world \<Rightarrow> (pystr + unit) \<times> world \<times> latency_info" where
  "audio_turn E request_sid data w =
     (let start_time = now E 0;
          latency_info = \<lparr>audio_conversion = 0, vad_validation = 0, silence_trimming = 0,
                          asr_transcription = 0, llm_response = 0\<rparr>
      in case py_get data (ascii ''audio'') of
           Inl e \<Rightarrow> (Inl e, w, latency_info)
         | Inr audio_base64 \<Rightarrow>
             if \<not> truthy audio_base64 then (Inr (), w, latency_info)
             else
               (case b64decode E audio_base64 of
                  Inl e \<Rightarrow> (Inl e, w, latency_info)
                | Inr audio_bytes \<Rightarrow>
                    (let asr_start = now E 1;
                         w = logger ''info'' (ascii ''Transcribing WebM audio directly...'') w
                     in case speech_to_text E audio_bytes of
                          Inl e \<Rightarrow> (Inl e, w, latency_info)
                        | Inr transcription \<Rightarrow>
                            (let latency_info = latency_info
                                   \<lparr>asr_transcription := (now E 2 - asr_start) * 1000\<rparr>;
                                 w = logger ''info'' (ascii ''User said: '' @ transcription) w
                             in if transcription = [] \<or> strip transcription = [] then
                                  (Inr (),
                                   emit ''bot_response''
                                     [(''user_text'', JStr (ascii ''...'')),
                                      (''bot_text'', JStr unclear_text)] w,
                                   latency_info)
                                else
                                  (let llm_start = now E 3;
                                       (session, store) =
                                          get_or_create_session request_sid (sessions w);
                                       w = w\<lparr>sessions := store\<rparr>
                                   in case build_booking_system_prompt E session of
                                        Inl e \<Rightarrow> (Inl e, w, latency_info)
                                      | Inr prompt \<Rightarrow>
                                          (let reply =
                                                 (case get_llm_response E transcription prompt of
                                                    Inl e \<Rightarrow> busy_text
                                                  | Inr r \<Rightarrow> r);
                                               latency_info = latency_info
                                                 \<lparr>llm_response := (now E 4 - llm_start) * 1000\<rparr>;
                                               w = w\<lparr>sessions := (sessions w)
                                                     (request_sid \<mapsto>
                                                        add_to_history session transcription reply)\<rparr>;
                                               total_latency = (now E 5 - start_time) * 1000;
                                               structured_data =
                                                 [(''total'', JFloat (round2 total_latency)),
                                                  (''conversion'', JInt 0),
                                                  (''vad'', JInt 0),
                                                  (''trim'', JInt 0),
                                                  (''asr'', JFloat (round2 (asr_transcription latency_info))),
                                                  (''llm'', JFloat (round2 (llm_response latency_info))),
                                                  (''timestamp'', JStr (strftime_now E))]
                                           in case open_stats E of
                                                Some e \<Rightarrow> (Inl e, w, latency_info)
                                              | None \<Rightarrow>
                                                  (Inr (),
                                                   emit ''bot_response''
                                                     [(''user_text'', JStr transcription),
                                                      (''bot_text'', JStr reply),
                                                      (''latency_ms'',
                                                         JObj [(''backend'', JInt (py_int total_latency))])]
                                                     (w\<lparr>stats_jsonl := stats_jsonl w @ [structured_data]\<rparr>),
                                                   latency_info)))))))"

text \<open>
  \<^verbatim>\<open>handle_audio_data\<close>: the \<^verbatim>\<open>try\<close> block and its handler, which logs the exception
  and emits it as an \<^verbatim>\<open>error\<close> event. The result is the world after the handler and the
  final value of the local \<^verbatim>\<open>latency_info\<close>.
\<close>

definition handle_audio_data ::
  "env \<Rightarrow> pystr \<Rightarrow> pyval \<Rightarrow> world \<Rightarrow> world \<times> latency_info" where
  "handle_audio_data E request_sid data w =
     (case audio_turn E request_sid data w of
        (Inl e, w', latency_info) \<Rightarrow>
          (emit ''error'' [(''message'', JStr e)] (logger ''error'' (ascii ''Error: '' @ e) w'),
           latency_info)
      | (Inr u, w', latency_info) \<Rightarrow> (w', latency_info))"

text \<open>The history of a connection id in a world; an id without a Session has none.\<close>

definition hist :: "world \<Rightarrow> pystr \<Rightarrow> (pystr \<times> pystr) list" where
  "hist w cid = (case sessions w cid of None \<Rightarrow> [] | Some s \<Rightarrow> history s)"

text \<open>\<open>blank t\<close>: the text is empty or consists of whitespace only.\<close>

definition blank :: "pystr \<Rightarrow> bool" where
  "blank t \<longleftrightarrow> list_all isspace t"

subsection \<open>A concrete turn\<close>

text \<open>
  An environment in which every collaborator answers: the clock advances by 100 ms between
  two readings, the decoder yields four bytes, the transcript is \<open>hello\<close> and the reply is
  \<open>hi\<close>. Variants of it are obtained by record update.
\<close>

definition sample_env :: env where
  "sample_env =
     \<lparr>now = (\<lambda>i. real i / 10),
      b64decode = (\<lambda>s. Inr [82, 73, 70, 70]),
      speech_to_text = (\<lambda>b. Inr (ascii ''hello'')),
      build_booking_system_prompt = (\<lambda>s. Inr (ascii ''prompt'')),
      get_llm_response = (\<lambda>t p. Inr (ascii ''hi'')),
      open_stats = None,
      strftime_now = ascii ''2025-01-01 00:00:00''\<rparr>"

definition sample_sid :: pystr where
  "sample_sid = ascii ''sid1''"

definition sample_data :: pyval where
  "sample_data = PDict [(ascii ''audio'', PStr (ascii ''UklGRg==''))]"

definition empty_world :: world where
  "empty_world = \<lparr>sessions = Map.empty, stats_jsonl = [], outbox = [], log = []\<rparr>"

text \<open>The service hears nothing: the transcript is a space and an ideographic space.\<close>

definition silent_env :: env where
  "silent_env = sample_env\<lparr>speech_to_text := \<lambda>b. Inr [32, 12288]\<rparr>"

text \<open>The speech-to-text call raises.\<close>

definition stt_down_env :: env where
  "stt_down_env = sample_env\<lparr>speech_to_text := \<lambda>b. Inl (ascii ''timeout'')\<rparr>"

text \<open>The language model call raises.\<close>

definition llm_down_env :: env where
  "llm_down_env = sample_env\<lparr>get_llm_response := \<lambda>t p. Inl (ascii ''quota'')\<rparr>"

text \<open>\<^verbatim>\<open>stats.jsonl\<close> cannot be opened for appending.\<close>

definition readonly_env :: env where
  "readonly_env = sample_env\<lparr>open_stats := Some (ascii ''Permission denied'')\<rparr>"

text \<open>The speech-to-text call raises and \<^verbatim>\<open>stats.jsonl\<close> cannot be opened.\<close>

definition stt_down_readonly_env :: env where
  "stt_down_readonly_env = stt_down_env\<lparr>open_stats := Some (ascii ''Permission denied'')\<rparr>"

text \<open>The language model call raises and \<^verbatim>\<open>stats.jsonl\<close> cannot be opened.\<close>

definition llm_down_readonly_env :: env where
  "llm_down_readonly_env = llm_down_env\<lparr>open_stats := Some (ascii ''Permission denied'')\<rparr>"

text \<open>The language model returns the empty string.\<close>

definition mute_env :: env where
  "mute_env = sample_env\<lparr>get_llm_response := \<lambda>t p. Inr []\<rparr>"

text \<open>
  A quick turn: transcription takes 100.006 ms, generation 200.006 ms, and nothing else
  takes measurable time.
\<close>

definition tight_env :: env where
  "tight_env =
     sample_env\<lparr>now := \<lambda>i. if i < 2 then 0 else if i < 4 then 100006 / 1000000
                             else 300012 / 1000000\<rparr>"

text \<open>The system clock is set back by 200 ms while the transcription runs.\<close>

definition clock_set_back_env :: env where
  "clock_set_back_env = sample_env\<lparr>now := \<lambda>i. if i < 2 then real i / 10 else real i / 10 - 2 / 10\<rparr>"

text \<open>A world in which the connection already has a Session with one exchange.\<close>

definition sample_session :: session where
  "sample_session =
     \<lparr>session_id = sample_sid, history = [(ascii ''hello'', ascii ''hi'')], booking_state = []\<rparr>"

definition one_session_world :: world where
  "one_session_world = empty_world\<lparr>sessions := [sample_sid \<mapsto> sample_session]\<rparr>"

text \<open>The world after the concrete turn, and after a second turn in which the model fails.\<close>

definition first_world :: world where
  "first_world = fst (handle_audio_data sample_env sample_sid sample_data empty_world)"

definition second_world :: world where
  "second_world = fst (handle_audio_data llm_down_env sample_sid sample_data first_world)"

section \<open>Properties\<close>

subsection \<open>Auxiliary facts\<close>

lemmas turn_defs = handle_audio_data_def audio_turn_def Let_def emit_def logger_def

lemma dropWhile_all_iff: "(\<forall>x \<in> set (dropWhile P s). P x) \<longleftrightarrow> (\<forall>x \<in> set s. P x)"
  by (induction s) auto

lemma strip_Nil_iff: "strip s = [] \<longleftrightarrow> blank s"
  by (simp add: strip_def blank_def list_all_iff dropWhile_eq_Nil_conv dropWhile_all_iff)

lemma blank_Nil: "blank []"
  by (simp add: blank_def)

text \<open>The handler on the path that ends at the check of the \<^verbatim>\<open>audio\<close> field.\<close>

lemma no_audio:
  "py_get data (ascii ''audio'') = Inr a \<Longrightarrow> \<not> truthy a \<Longrightarrow>
   handle_audio_data E sid data w =
     (w, \<lparr>audio_conversion = 0, vad_validation = 0, silence_trimming = 0,
          asr_transcription = 0, llm_response = 0\<rparr>)"
  by (simp add: turn_defs)

text \<open>The handler when the payload has no \<^verbatim>\<open>get\<close> method.\<close>

lemma not_dict:
  "py_get data (ascii ''audio'') = Inl e \<Longrightarrow>
   handle_audio_data E sid data w =
     (emit ''error'' [(''message'', JStr e)] (logger ''error'' (ascii ''Error: '' @ e) w),
      \<lparr>audio_conversion = 0, vad_validation = 0, silence_trimming = 0,
          asr_transcription = 0, llm_response = 0\<rparr>)"
  by (simp add: turn_defs)

text \<open>The handler on the path that ends at the check of the transcript.\<close>

lemma empty_speech:
  "py_get data (ascii ''audio'') = Inr a \<Longrightarrow> truthy a \<Longrightarrow> b64decode E a = Inr bs \<Longrightarrow>
   speech_to_text E bs = Inr t \<Longrightarrow> blank t \<Longrightarrow>
   handle_audio_data E sid data w =
     (emit ''bot_response''
        [(''user_text'', JStr (ascii ''...'')), (''bot_text'', JStr unclear_text)]
        (logger ''info'' (ascii ''User said: '' @ t)
           (logger ''info'' (ascii ''Transcribing WebM audio directly...'') w)),
      \<lparr>audio_conversion = 0, vad_validation = 0, silence_trimming = 0,
          asr_transcription = (now E 2 - now E 1) * 1000, llm_response = 0\<rparr>)"
  by (simp add: turn_defs strip_Nil_iff)

lemma not_blank_nonempty: "\<not> blank t \<Longrightarrow> t \<noteq> []"
  using blank_Nil by auto

lemma get_or_create_session_upd:
  "(snd (get_or_create_session sid store))(sid \<mapsto> s) = store(sid \<mapsto> s)"
  by (simp add: get_or_create_session_def Let_def split: option.splits)

lemma history_get_or_create:
  "history (fst (get_or_create_session sid (sessions w))) = hist w sid"
  by (simp add: get_or_create_session_def hist_def Let_def split: option.splits)

text \<open>The handler on the path that reaches the language model.\<close>

lemma generation_path:
  assumes "py_get data (ascii ''audio'') = Inr a" and "truthy a" and "b64decode E a = Inr bs"
    and "speech_to_text E bs = Inr t" and "\<not> blank t"
    and "build_booking_system_prompt E (fst (get_or_create_session sid (sessions w))) = Inr p"
  shows "handle_audio_data E sid data w =
    (let s = fst (get_or_create_session sid (sessions w));
         reply = (case get_llm_response E t p of Inl e \<Rightarrow> busy_text | Inr r \<Rightarrow> r);
         li = \<lparr>audio_conversion = 0, vad_validation = 0, silence_trimming = 0,
               asr_transcription = (now E 2 - now E 1) * 1000,
               llm_response = (now E 4 - now E 3) * 1000\<rparr>;
         w1 = (logger ''info'' (ascii ''User said: '' @ t)
                (logger ''info'' (ascii ''Transcribing WebM audio directly...'') w))
              \<lparr>sessions := (sessions w)(sid \<mapsto> add_to_history s t reply)\<rparr>
     in case open_stats E of
          Some e \<Rightarrow>
            (emit ''error'' [(''message'', JStr e)] (logger ''error'' (ascii ''Error: '' @ e) w1), li)
        | None \<Rightarrow>
            (emit ''bot_response''
               [(''user_text'', JStr t), (''bot_text'', JStr reply),
                (''latency_ms'', JObj [(''backend'', JInt (py_int ((now E 5 - now E 0) * 1000)))])]
               (w1\<lparr>stats_jsonl := stats_jsonl w @
                   [[(''total'', JFloat (round2 ((now E 5 - now E 0) * 1000))),
                     (''conversion'', JInt 0), (''vad'', JInt 0), (''trim'', JInt 0),
                     (''asr'', JFloat (round2 ((now E 2 - now E 1) * 1000))),
                     (''llm'', JFloat (round2 ((now E 4 - now E 3) * 1000))),
                     (''timestamp'', JStr (strftime_now E))]]\<rparr>), li))"
  using assms not_blank_nonempty [of t]
  by (simp add: turn_defs strip_Nil_iff get_or_create_session_upd split_beta
      split: option.splits sum.splits)

text \<open>The handler on the three paths that fail before the history is touched.\<close>

lemma decode_fail:
  "py_get data (ascii ''audio'') = Inr a \<Longrightarrow> truthy a \<Longrightarrow> b64decode E a = Inl e \<Longrightarrow>
   handle_audio_data E sid data w =
     (emit ''error'' [(''message'', JStr e)] (logger ''error'' (ascii ''Error: '' @ e) w),
      \<lparr>audio_conversion = 0, vad_validation = 0, silence_trimming = 0,
          asr_transcription = 0, llm_response = 0\<rparr>)"
  by (simp add: turn_defs)

lemma stt_fail:
  "py_get data (ascii ''audio'') = Inr a \<Longrightarrow> truthy a \<Longrightarrow> b64decode E a = Inr bs \<Longrightarrow>
   speech_to_text E bs = Inl e \<Longrightarrow>
   handle_audio_data E sid data w =
     (emit ''error'' [(''message'', JStr e)]
        (logger ''error'' (ascii ''Error: '' @ e)
           (logger ''info'' (ascii ''Transcribing WebM audio directly...'') w)),
      \<lparr>audio_conversion = 0, vad_validation = 0, silence_trimming = 0,
          asr_transcription = 0, llm_response = 0\<rparr>)"
  by (simp add: turn_defs)

lemma prompt_fail:
  assumes "py_get data (ascii ''audio'') = Inr a" and "truthy a" and "b64decode E a = Inr bs"
    and "speech_to_text E bs = Inr t" and "\<not> blank t"
    and "build_booking_system_prompt E (fst (get_or_create_session sid (sessions w))) = Inl e"
  shows "handle_audio_data E sid data w =
     (emit ''error'' [(''message'', JStr e)]
        (logger ''error'' (ascii ''Error: '' @ e)
           ((logger ''info'' (ascii ''User said: '' @ t)
              (logger ''info'' (ascii ''Transcribing WebM audio directly...'') w))
            \<lparr>sessions := snd (get_or_create_session sid (sessions w))\<rparr>)),
      \<lparr>audio_conversion = 0, vad_validation = 0, silence_trimming = 0,
          asr_transcription = (now E 2 - now E 1) * 1000, llm_response = 0\<rparr>)"
  using assms not_blank_nonempty [of t]
  by (simp add: turn_defs strip_Nil_iff split_beta)

text \<open>The paths of a turn, as a case distinction on what the collaborators answer.\<close>

lemma turn_cases
  [case_names malformed absent undecodable untranscribed unheard unprompted generated]:
  obtains e where "py_get data (ascii ''audio'') = Inl e"
  | a where "py_get data (ascii ''audio'') = Inr a" and "\<not> truthy a"
  | a e where "py_get data (ascii ''audio'') = Inr a" and "truthy a" and "b64decode E a = Inl e"
  | a bs e where "py_get data (ascii ''audio'') = Inr a" and "truthy a" and "b64decode E a = Inr bs"
      and "speech_to_text E bs = Inl e"
  | a bs t where "py_get data (ascii ''audio'') = Inr a" and "truthy a" and "b64decode E a = Inr bs"
      and "speech_to_text E bs = Inr t" and "blank t"
  | a bs t e where "py_get data (ascii ''audio'') = Inr a" and "truthy a" and "b64decode E a = Inr bs"
      and "speech_to_text E bs = Inr t" and "\<not> blank t"
      and "build_booking_system_prompt E (fst (get_or_create_session sid (sessions w))) = Inl e"
  | a bs t p where "py_get data (ascii ''audio'') = Inr a" and "truthy a" and "b64decode E a = Inr bs"
      and "speech_to_text E bs = Inr t" and "\<not> blank t"
      and "build_booking_system_prompt E (fst (get_or_create_session sid (sessions w))) = Inr p"
proof (cases "py_get data (ascii ''audio'')")
  case (Inl e)
  then show ?thesis using that(1) by simp
next
  case a: (Inr a)
  show ?thesis
  proof (cases "truthy a")
    case False
    with a show ?thesis using that(2) by simp
  next
    case True
    show ?thesis
    proof (cases "b64decode E a")
      case (Inl e)
      with a True show ?thesis using that(3) by blast
    next
      case (Inr bs)
      show ?thesis
      proof (cases "speech_to_text E bs")
        case (Inl e)
        with a True Inr show ?thesis using that(4) by blast
      next
        case t: (Inr t)
        show ?thesis
        proof (cases "blank t")
          case blank: True
          with a True Inr t show ?thesis using that(5) by blast
        next
          case nb: False
          show ?thesis
          proof (cases "build_booking_system_prompt E (fst (get_or_create_session sid (sessions w)))")
            case (Inl e)
            with a True Inr t nb show ?thesis using that(6) by blast
          next
            case p: (Inr p)
            with a True Inr t nb show ?thesis using that(7) by blast
          qed
        qed
      qed
    qed
  qed
qed

text \<open>A turn that emits the complete response has appended its exchange.\<close>

lemma hist_Some: "sessions w sid = Some s \<Longrightarrow> hist w sid = history s"
  by (simp add: hist_def)

lemma completed_appends:
  assumes "outbox (fst (handle_audio_data E sid data w)) =
      outbox w @ [Emit ''bot_response''
        [(''user_text'', JStr t), (''bot_text'', JStr r), (''latency_ms'', l)]]"
  shows "\<exists>s. sessions (fst (handle_audio_data E sid data w)) sid = Some s \<and>
           history s = hist w sid @ [(t, r)]"
proof (cases rule: turn_cases [where data = data and E = E and sid = sid and w = w])
  case (malformed e)
  with assms show ?thesis by (simp add: not_dict emit_def logger_def)
next
  case (absent a)
  with assms show ?thesis by (simp add: no_audio)
next
  case (undecodable a e)
  with assms show ?thesis by (simp add: decode_fail emit_def logger_def)
next
  case (untranscribed a bs e)
  with assms show ?thesis by (simp add: stt_fail emit_def logger_def)
next
  case (unheard a bs t')
  with assms show ?thesis by (simp add: empty_speech emit_def logger_def)
next
  case (unprompted a bs t' e)
  with assms show ?thesis by (simp add: prompt_fail emit_def logger_def)
next
  case (generated a bs t' p)
  note path = generation_path [where data = data, OF generated]
  let ?reply = "case get_llm_response E t' p of Inl e \<Rightarrow> busy_text | Inr r \<Rightarrow> r"
  let ?s = "add_to_history (fst (get_or_create_session sid (sessions w))) t' ?reply"
  have "sessions (fst (handle_audio_data E sid data w)) sid = Some ?s"
    by (simp add: path Let_def emit_def logger_def split: option.splits)
  moreover have "history ?s = hist w sid @ [(t', ?reply)]"
    by (simp add: add_to_history_def history_get_or_create)
  moreover have "t' = t \<and> ?reply = r"
    using assms by (auto simp add: path Let_def emit_def logger_def split: option.splits)
  ultimately show ?thesis by auto
qed

text \<open>Facts about the concrete turn.\<close>

lemma sample_audio: "py_get sample_data (ascii ''audio'') = Inr (PStr (ascii ''UklGRg==''))"
  by (simp add: sample_data_def py_get_def)

lemma sample_audio_nonempty: "truthy (PStr (ascii ''UklGRg==''))"
  by (simp add: ascii_def)

lemma sample_turn:
  "handle_audio_data sample_env sample_sid sample_data empty_world =
    (\<lparr>sessions = [sample_sid \<mapsto> sample_session],
      stats_jsonl = [[(''total'', JFloat 500), (''conversion'', JInt 0), (''vad'', JInt 0),
         (''trim'', JInt 0), (''asr'', JFloat 100), (''llm'', JFloat 100),
         (''timestamp'', JStr (ascii ''2025-01-01 00:00:00''))]],
      outbox = [Emit ''bot_response'' [(''user_text'', JStr (ascii ''hello'')),
         (''bot_text'', JStr (ascii ''hi'')), (''latency_ms'', JObj [(''backend'', JInt 500)])]],
      log = [(''info'', ascii ''Transcribing WebM audio directly...''),
             (''info'', ascii ''User said: hello'')]\<rparr>,
     \<lparr>audio_conversion = 0, vad_validation = 0, silence_trimming = 0,
      asr_transcription = 100, llm_response = 100\<rparr>)"
  by (simp add: turn_defs sample_env_def sample_data_def py_get_def empty_world_def sample_session_def
      ascii_def strip_def isspace_def get_or_create_session_def add_to_history_def
      round2_def round_half_even_def py_int_def)

lemma first_world:
  "first_world =
    \<lparr>sessions = [sample_sid \<mapsto> sample_session],
      stats_jsonl = [[(''total'', JFloat 500), (''conversion'', JInt 0), (''vad'', JInt 0),
         (''trim'', JInt 0), (''asr'', JFloat 100), (''llm'', JFloat 100),
         (''timestamp'', JStr (ascii ''2025-01-01 00:00:00''))]],
      outbox = [Emit ''bot_response'' [(''user_text'', JStr (ascii ''hello'')),
         (''bot_text'', JStr (ascii ''hi'')), (''latency_ms'', JObj [(''backend'', JInt 500)])]],
      log = [(''info'', ascii ''Transcribing WebM audio directly...''),
             (''info'', ascii ''User said: hello'')]\<rparr>"
  by (simp add: first_world_def sample_turn)

lemma second_world:
  "sessions second_world =
     [sample_sid \<mapsto> sample_session\<lparr>history := [(ascii ''hello'', ascii ''hi''),
        (ascii ''hello'', busy_text)]\<rparr>] \<and>
   outbox second_world = outbox first_world @
     [Emit ''bot_response'' [(''user_text'', JStr (ascii ''hello'')),
         (''bot_text'', JStr busy_text), (''latency_ms'', JObj [(''backend'', JInt 500)])]]"
  by (simp add: second_world_def first_world turn_defs llm_down_env_def sample_env_def
      sample_data_def py_get_def sample_session_def
      ascii_def strip_def isspace_def get_or_create_session_def add_to_history_def
      round2_def round_half_even_def py_int_def)

lemma sample_turn_facts:
  "b64decode sample_env (PStr (ascii ''UklGRg=='')) = Inr [82, 73, 70, 70]"
  "speech_to_text sample_env [82, 73, 70, 70] = Inr (ascii ''hello'')"
  "\<not> blank (ascii ''hello'')"
  "build_booking_system_prompt sample_env s = Inr (ascii ''prompt'')"
  "get_llm_response sample_env t p = Inr (ascii ''hi'')"
  "open_stats sample_env = None"
  by (simp_all add: sample_env_def blank_def ascii_def isspace_def)

lemma llm_down_facts:
  "b64decode llm_down_env (PStr (ascii ''UklGRg=='')) = Inr [82, 73, 70, 70]"
  "speech_to_text llm_down_env [82, 73, 70, 70] = Inr (ascii ''hello'')"
  "build_booking_system_prompt llm_down_env s = Inr (ascii ''prompt'')"
  "get_llm_response llm_down_env t p = Inl (ascii ''quota'')"
  "open_stats llm_down_env = None"
  by (simp_all add: llm_down_env_def sample_env_def)

lemma get_or_create_session_keeps:
  "store c = Some s \<Longrightarrow> snd (get_or_create_session sid store) c = Some s"
  by (auto simp: get_or_create_session_def Let_def split: option.splits)

lemma hist_get_or_create:
  "sessions w' = snd (get_or_create_session sid (sessions w)) \<Longrightarrow> hist w' c = hist w c"
  by (simp add: hist_def get_or_create_session_def Let_def split: option.splits)

lemma stt_down_facts:
  "b64decode stt_down_env (PStr (ascii ''UklGRg=='')) = Inr [82, 73, 70, 70]"
  "speech_to_text stt_down_env [82, 73, 70, 70] = Inl (ascii ''timeout'')"
  "open_stats stt_down_env = None"
  "now stt_down_env i = real i / 10"
  by (simp_all add: stt_down_env_def sample_env_def)

text \<open>What a turn does to the Store, the metrics and the outbox does not depend on the log.\<close>

lemma turn_ignores_log:
  "sessions (fst (handle_audio_data E sid data (w\<lparr>log := l\<rparr>))) =
     sessions (fst (handle_audio_data E sid data w)) \<and>
   stats_jsonl (fst (handle_audio_data E sid data (w\<lparr>log := l\<rparr>))) =
     stats_jsonl (fst (handle_audio_data E sid data w)) \<and>
   outbox (fst (handle_audio_data E sid data (w\<lparr>log := l\<rparr>))) =
     outbox (fst (handle_audio_data E sid data w))"
proof (cases rule: turn_cases [where data = data and E = E and sid = sid and w = w])
  case (malformed e)
  then show ?thesis by (simp add: not_dict emit_def logger_def)
next
  case (absent a)
  then show ?thesis by (simp add: no_audio)
next
  case (undecodable a e)
  then show ?thesis by (simp add: decode_fail emit_def logger_def)
next
  case (untranscribed a bs e)
  then show ?thesis by (simp add: stt_fail emit_def logger_def)
next
  case (unheard a bs t)
  then show ?thesis by (simp add: empty_speech emit_def logger_def)
next
  case (unprompted a bs t e)
  then have "build_booking_system_prompt E
      (fst (get_or_create_session sid (sessions (w\<lparr>log := l\<rparr>)))) = Inl e"
    by simp
  with unprompted show ?thesis
    by (simp add: prompt_fail [where data = data and a = a and bs = bs and e = e]
        emit_def logger_def)
next
  case (generated a bs t p)
  then have "build_booking_system_prompt E
      (fst (get_or_create_session sid (sessions (w\<lparr>log := l\<rparr>)))) = Inr p"
    by simp
  with generated show ?thesis
    by (simp add: generation_path [where data = data and a = a and bs = bs and p = p]
        Let_def emit_def logger_def split: option.splits)
qed

lemma sample_turn_one_session:
  "outbox (fst (handle_audio_data sample_env sample_sid sample_data
       (handle_disconnect sample_sid one_session_world))) =
     [Emit ''bot_response'' [(''user_text'', JStr (ascii ''hello'')),
        (''bot_text'', JStr (ascii ''hi'')), (''latency_ms'', JObj [(''backend'', JInt 500)])]]"
  by (simp add: turn_defs handle_disconnect_def one_session_world_def sample_env_def
      sample_data_def py_get_def empty_world_def sample_session_def
      ascii_def strip_def isspace_def get_or_create_session_def add_to_history_def
      round2_def round_half_even_def py_int_def)

text \<open>Rounding to two decimals moves a value by at most half a hundredth.\<close>

lemma round_half_even_bounds:
  "x - 1 / 2 \<le> of_int (round_half_even x)" "of_int (round_half_even x) \<le> x + 1 / 2"
  unfolding round_half_even_def Let_def by (auto; linarith)+

lemma round_half_even_nonneg: "0 \<le> x \<Longrightarrow> 0 \<le> round_half_even x"
  unfolding round_half_even_def Let_def by (auto; linarith)

lemma round2_nonneg: "0 \<le> x \<Longrightarrow> 0 \<le> round2 x"
  by (simp add: round2_def round_half_even_nonneg)

lemma round2_sum:
  assumes "a + l \<le> t"
  shows "round2 a + round2 l - 1 / 100 \<le> round2 t"
proof -
  let ?A = "round_half_even (a * 100)" and ?L = "round_half_even (l * 100)"
    and ?T = "round_half_even (t * 100)"
  have "real_of_int ?A \<le> a * 100 + 1 / 2" "real_of_int ?L \<le> l * 100 + 1 / 2"
    "t * 100 - 1 / 2 \<le> real_of_int ?T"
    by (rule round_half_even_bounds)+
  with assms have "real_of_int (?A + ?L) \<le> real_of_int ?T + 3 / 2" by simp
  then have "real_of_int (?A + ?L - ?T) < 2" by simp
  then have "?A + ?L - ?T < 2" by linarith
  then have "?A + ?L - 1 \<le> ?T" by simp
  then have "real_of_int (?A + ?L - 1) \<le> real_of_int ?T" by linarith
  then show ?thesis by (simp add: round2_def field_simps)
qed

lemmas concrete_defs = sample_env_def sample_data_def py_get_def empty_world_def
  ascii_def strip_def isspace_def get_or_create_session_def add_to_history_def
  round2_def round_half_even_def py_int_def

subsection \<open>One outbound event per audio chunk\<close>

text \<open>
  C1, as stated, fails: a client can send \<^verbatim>\<open>null\<close> as the payload. It has no \<^verbatim>\<open>audio\<close>
  field, yet the lookup \<^verbatim>\<open>data.get('audio')\<close> raises inside the \<^verbatim>\<open>try\<close> block and the
  handler emits an \<^verbatim>\<open>error\<close> event instead of staying silent.
\<close>

theorem null_payload_gets_error:
  "outbox (fst (handle_audio_data sample_env sample_sid PNone empty_world)) =
     [Emit ''error'' [(''message'',
        JStr (ascii ([CHR 0x27] @ ''NoneType'' @ [CHR 0x27] @ '' object has no attribute '' @
          [CHR 0x27] @ ''get'' @ [CHR 0x27])))]]"
  by (simp add: turn_defs py_get_def empty_world_def)

text \<open>
  C1, amended. For every inbound \<^verbatim>\<open>audio_data\<close> event the handler emits exactly one
  outbound event, a \<^verbatim>\<open>bot_response\<close> or an \<^verbatim>\<open>error\<close>, except when the payload is a
  dictionary whose \<^verbatim>\<open>audio\<close> field is absent or empty (\<^verbatim>\<open>data.get('audio')\<close> returns
  \<^verbatim>\<open>None\<close>, an empty string or another false value): then it emits no event at all. A
  payload that is not a dictionary gets an \<^verbatim>\<open>error\<close> event.
\<close>

theorem one_event_per_audio_chunk:
  "((\<exists>a. py_get data (ascii ''audio'') = Inr a \<and> \<not> truthy a) \<longrightarrow>
      outbox (fst (handle_audio_data E sid data w)) = outbox w) \<and>
   (\<not> (\<exists>a. py_get data (ascii ''audio'') = Inr a \<and> \<not> truthy a) \<longrightarrow>
      (\<exists>ev. outbox (fst (handle_audio_data E sid data w)) = outbox w @ [ev] \<and>
            (name ev = ''bot_response'' \<or> name ev = ''error''))) \<and>
   ((\<forall>d. data \<noteq> PDict d) \<longrightarrow>
      (\<exists>e. outbox (fst (handle_audio_data E sid data w)) =
            outbox w @ [Emit ''error'' [(''message'', JStr e)]]))"
proof (intro conjI impI)
  assume "\<exists>a. py_get data (ascii ''audio'') = Inr a \<and> \<not> truthy a"
  then obtain a where "py_get data (ascii ''audio'') = Inr a" "\<not> truthy a" by blast
  then show "outbox (fst (handle_audio_data E sid data w)) = outbox w"
    by (simp add: no_audio)
next
  assume "\<not> (\<exists>a. py_get data (ascii ''audio'') = Inr a \<and> \<not> truthy a)"
  then show "\<exists>ev. outbox (fst (handle_audio_data E sid data w)) = outbox w @ [ev] \<and>
            (name ev = ''bot_response'' \<or> name ev = ''error'')"
    by (simp add: turn_defs split: sum.splits option.splits prod.splits)
next
  assume "\<forall>d. data \<noteq> PDict d"
  then obtain e where "py_get data (ascii ''audio'') = Inl e"
    by (cases data) (simp_all add: py_get_def)
  then show "\<exists>e. outbox (fst (handle_audio_data E sid data w)) =
            outbox w @ [Emit ''error'' [(''message'', JStr e)]]"
    by (simp add: not_dict emit_def logger_def)
qed

theorem one_event_per_audio_chunk_witness:
  "(\<exists>a. py_get (PDict []) (ascii ''audio'') = Inr a \<and> \<not> truthy a) \<and>
   outbox (fst (handle_audio_data sample_env sample_sid (PDict []) empty_world)) =
     outbox empty_world \<and>
   \<not> (\<exists>a. py_get sample_data (ascii ''audio'') = Inr a \<and> \<not> truthy a) \<and>
   (\<exists>ev. outbox (fst (handle_audio_data sample_env sample_sid sample_data empty_world)) =
            outbox empty_world @ [ev] \<and> (name ev = ''bot_response'' \<or> name ev = ''error'')) \<and>
   (\<forall>d. PNone \<noteq> PDict d) \<and>
   (\<exists>e. outbox (fst (handle_audio_data sample_env sample_sid PNone empty_world)) =
         outbox empty_world @ [Emit ''error'' [(''message'', JStr e)]])"
proof -
  have h1: "\<exists>a. py_get (PDict []) (ascii ''audio'') = Inr a \<and> \<not> truthy a"
    by (simp add: py_get_def)
  have h2: "\<not> (\<exists>a. py_get sample_data (ascii ''audio'') = Inr a \<and> \<not> truthy a)"
    by (simp add: sample_data_def py_get_def ascii_def)
  have h3: "\<forall>d. PNone \<noteq> PDict d"
    by simp
  show ?thesis
    using h1 h2 h3
      one_event_per_audio_chunk [of "PDict []" sample_env sample_sid empty_world]
      one_event_per_audio_chunk [of sample_data sample_env sample_sid empty_world]
      one_event_per_audio_chunk [of PNone sample_env sample_sid empty_world]
    by blast
qed

subsection \<open>Completed turns\<close>

text \<open>
  C2, as stated, fails, in five ways. A transcript of whitespace is not empty, yet it gets
  the fixed reply and no metrics record. When transcription takes 100.006 ms and generation
  200.006 ms of a turn of 300.012 ms, the record has \<^verbatim>\<open>asr\<close> 100.01, \<^verbatim>\<open>llm\<close> 200.01 and
  \<^verbatim>\<open>total\<close> 300.01, which is less than their sum. When \<^verbatim>\<open>stats.jsonl\<close> cannot be
  appended to, the event is an \<^verbatim>\<open>error\<close> and no record is written. When the model returns
  the empty string, \<^verbatim>\<open>bot_text\<close> is empty. When the system clock is set back during the
  transcription, \<^verbatim>\<open>asr\<close> is negative.
\<close>

theorem completed_turn_claim_fails:
  "speech_to_text silent_env [82, 73, 70, 70] = Inr [32, 12288] \<and>
   outbox (fst (handle_audio_data silent_env sample_sid sample_data empty_world)) =
     [Emit ''bot_response''
        [(''user_text'', JStr (ascii ''...'')), (''bot_text'', JStr unclear_text)]] \<and>
   stats_jsonl (fst (handle_audio_data silent_env sample_sid sample_data empty_world)) = [] \<and>
   stats_jsonl (fst (handle_audio_data tight_env sample_sid sample_data empty_world)) =
     [[(''total'', JFloat (30001 / 100)), (''conversion'', JInt 0), (''vad'', JInt 0),
       (''trim'', JInt 0), (''asr'', JFloat (10001 / 100)), (''llm'', JFloat (20001 / 100)),
       (''timestamp'', JStr (ascii ''2025-01-01 00:00:00''))]] \<and>
   (30001 / 100 :: real) < 10001 / 100 + 20001 / 100 \<and>
   outbox (fst (handle_audio_data readonly_env sample_sid sample_data empty_world)) =
     [Emit ''error'' [(''message'', JStr (ascii ''Permission denied''))]] \<and>
   stats_jsonl (fst (handle_audio_data readonly_env sample_sid sample_data empty_world)) = [] \<and>
   outbox (fst (handle_audio_data mute_env sample_sid sample_data empty_world)) =
     [Emit ''bot_response'' [(''user_text'', JStr (ascii ''hello'')), (''bot_text'', JStr []),
        (''latency_ms'', JObj [(''backend'', JInt 500)])]] \<and>
   stats_jsonl (fst (handle_audio_data clock_set_back_env sample_sid sample_data empty_world)) =
     [[(''total'', JFloat 300), (''conversion'', JInt 0), (''vad'', JInt 0),
       (''trim'', JInt 0), (''asr'', JFloat (- 100)), (''llm'', JFloat 100),
       (''timestamp'', JStr (ascii ''2025-01-01 00:00:00''))]]"
proof -
  have silent: "speech_to_text silent_env [82, 73, 70, 70] = Inr [32, 12288]"
    "outbox (fst (handle_audio_data silent_env sample_sid sample_data empty_world)) =
     [Emit ''bot_response''
        [(''user_text'', JStr (ascii ''...'')), (''bot_text'', JStr unclear_text)]]"
    "stats_jsonl (fst (handle_audio_data silent_env sample_sid sample_data empty_world)) = []"
    by (simp_all add: turn_defs silent_env_def concrete_defs)
  have tight: "stats_jsonl (fst (handle_audio_data tight_env sample_sid sample_data empty_world)) =
     [[(''total'', JFloat (30001 / 100)), (''conversion'', JInt 0), (''vad'', JInt 0),
       (''trim'', JInt 0), (''asr'', JFloat (10001 / 100)), (''llm'', JFloat (20001 / 100)),
       (''timestamp'', JStr (ascii ''2025-01-01 00:00:00''))]]"
    by (simp add: turn_defs tight_env_def concrete_defs)
  have readonly:
    "outbox (fst (handle_audio_data readonly_env sample_sid sample_data empty_world)) =
     [Emit ''error'' [(''message'', JStr (ascii ''Permission denied''))]]"
    "stats_jsonl (fst (handle_audio_data readonly_env sample_sid sample_data empty_world)) = []"
    by (simp_all add: turn_defs readonly_env_def concrete_defs)
  have mute: "outbox (fst (handle_audio_data mute_env sample_sid sample_data empty_world)) =
     [Emit ''bot_response'' [(''user_text'', JStr (ascii ''hello'')), (''bot_text'', JStr []),
        (''latency_ms'', JObj [(''backend'', JInt 500)])]]"
    by (simp add: turn_defs mute_env_def concrete_defs)
  have regress:
    "stats_jsonl (fst (handle_audio_data clock_set_back_env sample_sid sample_data empty_world)) =
     [[(''total'', JFloat 300), (''conversion'', JInt 0), (''vad'', JInt 0),
       (''trim'', JInt 0), (''asr'', JFloat (- 100)), (''llm'', JFloat 100),
       (''timestamp'', JStr (ascii ''2025-01-01 00:00:00''))]]"
    by (simp add: turn_defs clock_set_back_env_def concrete_defs)
  show ?thesis
    unfolding silent tight readonly mute regress by simp
qed

text \<open>
  C2, amended. For every non-empty audio input whose transcription returns a text that is not
  blank, whose prompt is built, whose generation succeeds and whose metrics record can be
  appended to \<^verbatim>\<open>stats.jsonl\<close>, exactly one event is emitted, a \<^verbatim>\<open>bot_response\<close> with that
  transcript as \<^verbatim>\<open>user_text\<close> and the reply of the generator as \<^verbatim>\<open>bot_text\<close> (non-empty
  when the reply is), and exactly one metrics record is appended. When the clock readings of
  the turn do not decrease, the \<^verbatim>\<open>asr\<close> and \<^verbatim>\<open>llm\<close> fields of the record are non-negative
  and its \<^verbatim>\<open>total\<close> field is at least \<^verbatim>\<open>asr + llm - 0.01\<close>, the three being rounded to two
  decimals each on its own.
\<close>

theorem completed_turn:
  assumes "py_get data (ascii ''audio'') = Inr a" and "truthy a" and "b64decode E a = Inr bs"
    and "speech_to_text E bs = Inr t" and "\<not> blank t"
    and "build_booking_system_prompt E (fst (get_or_create_session sid (sessions w))) = Inr p"
    and "get_llm_response E t p = Inr r" and "open_stats E = None"
  shows "outbox (fst (handle_audio_data E sid data w)) =
           outbox w @ [Emit ''bot_response''
             [(''user_text'', JStr t), (''bot_text'', JStr r),
              (''latency_ms'',
                 JObj [(''backend'', JInt (py_int ((now E 5 - now E 0) * 1000)))])]] \<and>
         (\<exists>tot asr llm.
            stats_jsonl (fst (handle_audio_data E sid data w)) =
              stats_jsonl w @
                [[(''total'', JFloat tot), (''conversion'', JInt 0), (''vad'', JInt 0),
                  (''trim'', JInt 0), (''asr'', JFloat asr), (''llm'', JFloat llm),
                  (''timestamp'', JStr (strftime_now E))]] \<and>
            (sorted (map (now E) [0, 1, 2, 3, 4, 5]) \<longrightarrow>
               0 \<le> asr \<and> 0 \<le> llm \<and> asr + llm - 1 / 100 \<le> tot))"
proof -
  note path = generation_path [where data = data, OF assms(1-6)]
  let ?tot = "round2 ((now E 5 - now E 0) * 1000)"
  let ?asr = "round2 ((now E 2 - now E 1) * 1000)"
  let ?llm = "round2 ((now E 4 - now E 3) * 1000)"
  have out: "outbox (fst (handle_audio_data E sid data w)) =
      outbox w @ [Emit ''bot_response''
        [(''user_text'', JStr t), (''bot_text'', JStr r),
         (''latency_ms'', JObj [(''backend'', JInt (py_int ((now E 5 - now E 0) * 1000)))])]]"
    by (simp add: path assms(7,8) Let_def emit_def logger_def)
  have stats: "stats_jsonl (fst (handle_audio_data E sid data w)) =
      stats_jsonl w @
        [[(''total'', JFloat ?tot), (''conversion'', JInt 0), (''vad'', JInt 0),
          (''trim'', JInt 0), (''asr'', JFloat ?asr), (''llm'', JFloat ?llm),
          (''timestamp'', JStr (strftime_now E))]]"
    by (simp add: path assms(7,8) Let_def emit_def logger_def)
  have times: "0 \<le> ?asr \<and> 0 \<le> ?llm \<and> ?asr + ?llm - 1 / 100 \<le> ?tot"
    if "sorted (map (now E) [0, 1, 2, 3, 4, 5])"
  proof -
    from that have le: "now E 0 \<le> now E 1" "now E 1 \<le> now E 2" "now E 2 \<le> now E 3"
      "now E 3 \<le> now E 4" "now E 4 \<le> now E 5"
      by simp_all
    then have "(now E 2 - now E 1) * 1000 + (now E 4 - now E 3) * 1000 \<le>
        (now E 5 - now E 0) * 1000"
      by simp
    then have "?asr + ?llm - 1 / 100 \<le> ?tot"
      by (rule round2_sum)
    moreover from le have "0 \<le> ?asr" "0 \<le> ?llm"
      by (simp_all add: round2_nonneg)
    ultimately show ?thesis by simp
  qed
  from out stats times show ?thesis by blast
qed

theorem completed_turn_witness:
  "py_get sample_data (ascii ''audio'') = Inr (PStr (ascii ''UklGRg=='')) \<and> truthy (PStr (ascii ''UklGRg=='')) \<and>
   b64decode sample_env (PStr (ascii ''UklGRg=='')) = Inr [82, 73, 70, 70] \<and>
   speech_to_text sample_env [82, 73, 70, 70] = Inr (ascii ''hello'') \<and>
   \<not> blank (ascii ''hello'') \<and>
   build_booking_system_prompt sample_env
     (fst (get_or_create_session sample_sid (sessions empty_world))) = Inr (ascii ''prompt'') \<and>
   get_llm_response sample_env (ascii ''hello'') (ascii ''prompt'') = Inr (ascii ''hi'') \<and>
   open_stats sample_env = None \<and>
   sorted (map (now sample_env) [0, 1, 2, 3, 4, 5]) \<and>
   outbox (fst (handle_audio_data sample_env sample_sid sample_data empty_world)) =
     outbox empty_world @ [Emit ''bot_response''
       [(''user_text'', JStr (ascii ''hello'')), (''bot_text'', JStr (ascii ''hi'')),
        (''latency_ms'',
           JObj [(''backend'', JInt (py_int ((now sample_env 5 - now sample_env 0) * 1000)))])]] \<and>
   (\<exists>tot asr llm.
      stats_jsonl (fst (handle_audio_data sample_env sample_sid sample_data empty_world)) =
        stats_jsonl empty_world @
          [[(''total'', JFloat tot), (''conversion'', JInt 0), (''vad'', JInt 0),
            (''trim'', JInt 0), (''asr'', JFloat asr), (''llm'', JFloat llm),
            (''timestamp'', JStr (strftime_now sample_env))]] \<and>
      0 \<le> asr \<and> 0 \<le> llm \<and> asr + llm - 1 / 100 \<le> tot)"
proof -
  have mono: "sorted (map (now sample_env) [0, 1, 2, 3, 4, 5])"
    by (simp add: sample_env_def)
  show ?thesis
    using sample_audio sample_audio_nonempty sample_turn_facts mono
      completed_turn [where data = sample_data and E = sample_env
        and sid = sample_sid and w = empty_world,
        OF sample_audio sample_audio_nonempty sample_turn_facts(1) sample_turn_facts(2)
          sample_turn_facts(3) sample_turn_facts(4) sample_turn_facts(5) sample_turn_facts(6)]
    by simp
qed

subsection \<open>Disconnect\<close>

text \<open>
  C3, as stated, fails: \<^verbatim>\<open>handle_disconnect\<close> only writes a log line. The Session of the
  connection stays in the Store, a turn that arrives afterwards for the same id is answered
  with a \<^verbatim>\<open>bot_response\<close>, and when the Store has no Session for the id such a turn creates
  one.
\<close>

theorem disconnect_does_not_evict:
  "sessions (handle_disconnect sample_sid one_session_world) sample_sid = Some sample_session \<and>
   outbox (fst (handle_audio_data sample_env sample_sid sample_data
       (handle_disconnect sample_sid one_session_world))) =
     [Emit ''bot_response'' [(''user_text'', JStr (ascii ''hello'')),
        (''bot_text'', JStr (ascii ''hi'')), (''latency_ms'', JObj [(''backend'', JInt 500)])]] \<and>
   sessions (handle_disconnect sample_sid empty_world) sample_sid = None \<and>
   sessions (fst (handle_audio_data sample_env sample_sid sample_data
       (handle_disconnect sample_sid empty_world))) sample_sid = Some sample_session"
proof -
  have "sessions (fst (handle_audio_data sample_env sample_sid sample_data
       (handle_disconnect sample_sid empty_world))) =
     sessions (fst (handle_audio_data sample_env sample_sid sample_data empty_world))"
    by (simp add: handle_disconnect_def logger_def turn_ignores_log)
  then have "sessions (fst (handle_audio_data sample_env sample_sid sample_data
       (handle_disconnect sample_sid empty_world))) sample_sid = Some sample_session"
    by (simp add: sample_turn)
  moreover have "sessions (handle_disconnect sample_sid one_session_world) sample_sid =
      Some sample_session"
    "sessions (handle_disconnect sample_sid empty_world) sample_sid = None"
    by (simp_all add: handle_disconnect_def logger_def one_session_world_def empty_world_def)
  ultimately show ?thesis
    using sample_turn_one_session by simp
qed

text \<open>
  C3, amended. A connection's \<^verbatim>\<open>disconnect\<close> event leaves the Session Store (and the
  metrics and the outbox) unchanged: the Session of that connection id is not evicted. A
  turn subsequently arriving for that id is processed exactly as if no disconnect had
  happened; it does not fail with a SessionNotFound condition, and once its transcript is
  not blank a Session for the id is registered in the Store, the former one or a new one.
\<close>

theorem disconnect_keeps_session:
  "sessions (handle_disconnect sid w) = sessions w \<and>
   stats_jsonl (handle_disconnect sid w) = stats_jsonl w \<and>
   outbox (handle_disconnect sid w) = outbox w \<and>
   sessions (fst (handle_audio_data E sid data (handle_disconnect sid w))) =
     sessions (fst (handle_audio_data E sid data w)) \<and>
   stats_jsonl (fst (handle_audio_data E sid data (handle_disconnect sid w))) =
     stats_jsonl (fst (handle_audio_data E sid data w)) \<and>
   outbox (fst (handle_audio_data E sid data (handle_disconnect sid w))) =
     outbox (fst (handle_audio_data E sid data w)) \<and>
   (\<forall>a bs t. py_get data (ascii ''audio'') = Inr a \<and> truthy a \<and> b64decode E a = Inr bs \<and>
       speech_to_text E bs = Inr t \<and> \<not> blank t \<longrightarrow>
      sessions (fst (handle_audio_data E sid data (handle_disconnect sid w))) sid \<noteq> None)"
proof -
  have same: "sessions (fst (handle_audio_data E sid data (handle_disconnect sid w))) =
     sessions (fst (handle_audio_data E sid data w))"
    by (simp add: handle_disconnect_def logger_def turn_ignores_log)
  have "sessions (fst (handle_audio_data E sid data w)) sid \<noteq> None"
    if "py_get data (ascii ''audio'') = Inr a" "truthy a" "b64decode E a = Inr bs"
      "speech_to_text E bs = Inr t" "\<not> blank t" for a bs t
  proof (cases "build_booking_system_prompt E (fst (get_or_create_session sid (sessions w)))")
    case (Inl e)
    with that show ?thesis
      by (simp add: prompt_fail [where data = data and a = a and bs = bs and e = e]
          emit_def logger_def get_or_create_session_def Let_def split: option.splits)
  next
    case (Inr p)
    with that show ?thesis
      by (simp add: generation_path [where data = data and a = a and bs = bs and p = p]
          Let_def emit_def logger_def split: option.splits)
  qed
  with same show ?thesis
    by (simp add: handle_disconnect_def logger_def turn_ignores_log)
qed

theorem disconnect_keeps_session_witness:
  "py_get sample_data (ascii ''audio'') = Inr (PStr (ascii ''UklGRg=='')) \<and> truthy (PStr (ascii ''UklGRg=='')) \<and>
   b64decode sample_env (PStr (ascii ''UklGRg=='')) = Inr [82, 73, 70, 70] \<and>
   speech_to_text sample_env [82, 73, 70, 70] = Inr (ascii ''hello'') \<and>
   \<not> blank (ascii ''hello'') \<and>
   sessions (handle_disconnect sample_sid one_session_world) = sessions one_session_world \<and>
   sessions (fst (handle_audio_data sample_env sample_sid sample_data
      (handle_disconnect sample_sid one_session_world))) sample_sid \<noteq> None"
  using sample_audio sample_audio_nonempty sample_turn_facts(1-3)
    disconnect_keeps_session [of sample_sid one_session_world sample_env sample_data]
  by blast

subsection \<open>Generation failure\<close>

text \<open>
  C4, as stated, fails: when the model raises and \<^verbatim>\<open>stats.jsonl\<close> cannot be appended to,
  the client receives an \<^verbatim>\<open>error\<close> event and no \<^verbatim>\<open>bot_response\<close>.
\<close>

theorem generation_failure_can_end_in_error:
  "speech_to_text llm_down_readonly_env [82, 73, 70, 70] = Inr (ascii ''hello'') \<and>
   get_llm_response llm_down_readonly_env (ascii ''hello'') (ascii ''prompt'') =
     Inl (ascii ''quota'') \<and>
   outbox (fst (handle_audio_data llm_down_readonly_env sample_sid sample_data empty_world)) =
     [Emit ''error'' [(''message'', JStr (ascii ''Permission denied''))]]"
  by (simp add: turn_defs llm_down_readonly_env_def llm_down_env_def sample_env_def
      sample_data_def py_get_def empty_world_def ascii_def strip_def isspace_def
      get_or_create_session_def add_to_history_def)

text \<open>
  C4, amended. For every turn whose transcription succeeded with a text that is not blank and
  whose generation gateway raises, the fallback "system busy" text takes the place of the
  reply: the pair (transcript, fallback text) is appended to the history of the
  connection's Session and, provided the metrics record can be appended to
  \<^verbatim>\<open>stats.jsonl\<close>, the one event emitted is a \<^verbatim>\<open>bot_response\<close> whose \<^verbatim>\<open>bot_text\<close> is the
  fallback text, and no \<^verbatim>\<open>error\<close> event.
\<close>

theorem generation_failure_fallback:
  assumes "py_get data (ascii ''audio'') = Inr a" and "truthy a" and "b64decode E a = Inr bs"
    and "speech_to_text E bs = Inr t" and "\<not> blank t"
    and "build_booking_system_prompt E (fst (get_or_create_session sid (sessions w))) = Inr p"
    and "get_llm_response E t p = Inl e"
  shows "(\<exists>s. sessions (fst (handle_audio_data E sid data w)) sid = Some s \<and>
            history s = hist w sid @ [(t, busy_text)]) \<and>
         (open_stats E = None \<longrightarrow>
            outbox (fst (handle_audio_data E sid data w)) =
              outbox w @ [Emit ''bot_response''
                [(''user_text'', JStr t), (''bot_text'', JStr busy_text),
                 (''latency_ms'',
                    JObj [(''backend'', JInt (py_int ((now E 5 - now E 0) * 1000)))])]])"
proof -
  note path = generation_path [where data = data, OF assms(1-6)]
  have "sessions (fst (handle_audio_data E sid data w)) sid =
      Some (add_to_history (fst (get_or_create_session sid (sessions w))) t busy_text)"
    by (simp add: path assms(7) Let_def emit_def logger_def split: option.splits)
  moreover have "history (add_to_history (fst (get_or_create_session sid (sessions w))) t busy_text) =
      hist w sid @ [(t, busy_text)]"
    by (simp add: add_to_history_def history_get_or_create)
  moreover have "open_stats E = None \<longrightarrow>
      outbox (fst (handle_audio_data E sid data w)) =
        outbox w @ [Emit ''bot_response''
          [(''user_text'', JStr t), (''bot_text'', JStr busy_text),
           (''latency_ms'', JObj [(''backend'', JInt (py_int ((now E 5 - now E 0) * 1000)))])]]"
    by (simp add: path assms(7) Let_def emit_def logger_def)
  ultimately show ?thesis by simp
qed

theorem generation_failure_fallback_witness:
  "py_get sample_data (ascii ''audio'') = Inr (PStr (ascii ''UklGRg=='')) \<and> truthy (PStr (ascii ''UklGRg=='')) \<and>
   b64decode llm_down_env (PStr (ascii ''UklGRg=='')) = Inr [82, 73, 70, 70] \<and>
   speech_to_text llm_down_env [82, 73, 70, 70] = Inr (ascii ''hello'') \<and>
   \<not> blank (ascii ''hello'') \<and>
   build_booking_system_prompt llm_down_env
     (fst (get_or_create_session sample_sid (sessions empty_world))) = Inr (ascii ''prompt'') \<and>
   get_llm_response llm_down_env (ascii ''hello'') (ascii ''prompt'') = Inl (ascii ''quota'') \<and>
   (\<exists>s. sessions (fst (handle_audio_data llm_down_env sample_sid sample_data empty_world))
           sample_sid = Some s \<and>
      history s = hist empty_world sample_sid @ [(ascii ''hello'', busy_text)]) \<and>
   open_stats llm_down_env = None \<and>
   outbox (fst (handle_audio_data llm_down_env sample_sid sample_data empty_world)) =
     outbox empty_world @ [Emit ''bot_response''
       [(''user_text'', JStr (ascii ''hello'')), (''bot_text'', JStr busy_text),
        (''latency_ms'',
           JObj [(''backend'', JInt (py_int ((now llm_down_env 5 - now llm_down_env 0) * 1000)))])]]"
  using sample_audio sample_audio_nonempty llm_down_facts sample_turn_facts(3)
    generation_failure_fallback [where data = sample_data and E = llm_down_env
      and sid = sample_sid and w = empty_world,
      OF sample_audio sample_audio_nonempty llm_down_facts(1) llm_down_facts(2)
        sample_turn_facts(3) llm_down_facts(3) llm_down_facts(4)]
  by simp

subsection \<open>Empty speech\<close>

text \<open>
  C5. For every audio input whose transcript is empty or whitespace-only, the handler emits
  a \<^verbatim>\<open>bot_response\<close> whose \<^verbatim>\<open>user_text\<close> is \<^verbatim>\<open>...\<close> and whose \<^verbatim>\<open>bot_text\<close> is the fixed
  "could not understand" text; the turn generator is not invoked (the outcome is the same
  whatever the generator would do), no metrics record is appended and the Session Store,
  hence every history, is unchanged.
\<close>

theorem empty_speech_reply:
  assumes "py_get data (ascii ''audio'') = Inr a" and "truthy a" and "b64decode E a = Inr bs"
    and "speech_to_text E bs = Inr t" and "blank t"
  shows "outbox (fst (handle_audio_data E sid data w)) =
           outbox w @ [Emit ''bot_response''
             [(''user_text'', JStr (ascii ''...'')), (''bot_text'', JStr unclear_text)]] \<and>
         handle_audio_data (E\<lparr>get_llm_response := g\<rparr>) sid data w =
           handle_audio_data E sid data w \<and>
         stats_jsonl (fst (handle_audio_data E sid data w)) = stats_jsonl w \<and>
         sessions (fst (handle_audio_data E sid data w)) = sessions w"
proof -
  have "handle_audio_data (E\<lparr>get_llm_response := g\<rparr>) sid data w =
      handle_audio_data E sid data w"
    using assms by (simp add: empty_speech [where bs = bs and t = t and a = a])
  then show ?thesis
    using assms by (simp add: empty_speech emit_def logger_def)
qed

theorem empty_speech_reply_witness:
  "py_get sample_data (ascii ''audio'') = Inr (PStr (ascii ''UklGRg=='')) \<and> truthy (PStr (ascii ''UklGRg=='')) \<and>
   b64decode silent_env (PStr (ascii ''UklGRg=='')) = Inr [82, 73, 70, 70] \<and>
   speech_to_text silent_env [82, 73, 70, 70] = Inr [32, 12288] \<and>
   blank [32, 12288] \<and>
   outbox (fst (handle_audio_data silent_env sample_sid sample_data empty_world)) =
     outbox empty_world @ [Emit ''bot_response''
        [(''user_text'', JStr (ascii ''...'')), (''bot_text'', JStr unclear_text)]] \<and>
   handle_audio_data (silent_env\<lparr>get_llm_response := \<lambda>t p. Inl (ascii ''quota'')\<rparr>)
        sample_sid sample_data empty_world =
     handle_audio_data silent_env sample_sid sample_data empty_world \<and>
   stats_jsonl (fst (handle_audio_data silent_env sample_sid sample_data empty_world)) =
     stats_jsonl empty_world \<and>
   sessions (fst (handle_audio_data silent_env sample_sid sample_data empty_world)) =
     sessions empty_world"
proof -
  have h3: "b64decode silent_env (PStr (ascii ''UklGRg=='')) = Inr [82, 73, 70, 70]"
    by (simp add: silent_env_def sample_env_def)
  have h4: "speech_to_text silent_env [82, 73, 70, 70] = Inr [32, 12288]"
    by (simp add: silent_env_def)
  have h5: "blank [32, 12288]" by (simp add: blank_def isspace_def)
  show ?thesis
    using sample_audio sample_audio_nonempty h3 h4 h5
      empty_speech_reply [where data = sample_data and E = silent_env and sid = sample_sid
        and w = empty_world and g = "\<lambda>t p. Inl (ascii ''quota'')",
        OF sample_audio sample_audio_nonempty h3 h4 h5]
    by simp
qed

subsection \<open>Failed turns\<close>

text \<open>
  C6, as stated, fails: when \<^verbatim>\<open>stats.jsonl\<close> cannot be appended to, the exception leaves
  the \<^verbatim>\<open>try\<close> block after \<^verbatim>\<open>add_to_history\<close> has run, so the turn fails with an
  \<^verbatim>\<open>error\<close> event although the history of the Session has been extended.
\<close>

theorem failed_turn_can_mutate_history:
  "fst (audio_turn readonly_env sample_sid sample_data empty_world) =
     Inl (ascii ''Permission denied'') \<and>
   outbox (fst (handle_audio_data readonly_env sample_sid sample_data empty_world)) =
     [Emit ''error'' [(''message'', JStr (ascii ''Permission denied''))]] \<and>
   hist empty_world sample_sid = [] \<and>
   hist (fst (handle_audio_data readonly_env sample_sid sample_data empty_world)) sample_sid =
     [(ascii ''hello'', ascii ''hi'')]"
  by (simp add: turn_defs readonly_env_def sample_env_def hist_def
      sample_data_def py_get_def empty_world_def ascii_def strip_def isspace_def
      get_or_create_session_def add_to_history_def)

text \<open>
  C6, amended. For every turn that reaches the FAILED state (an exception leaves the
  \<^verbatim>\<open>try\<close> block: payload error, decode error, transcription gateway error or any other
  exception), one \<^verbatim>\<open>error\<close> event carrying the text of the exception is emitted and no
  latency record is written to the metrics log. The Session state is not mutated by that
  turn when the failure precedes the history append, that is, unless the turn got as far as
  the language model: every history is as it was and every Session that was registered is
  unchanged; when the failure arises no later than in the transcription, the Store is
  untouched. A turn that fails after it got as far as the language model fails in the
  metrics append.
\<close>

theorem failed_turn:
  assumes "fst (audio_turn E sid data w) = Inl e"
  shows "outbox (fst (handle_audio_data E sid data w)) =
           outbox w @ [Emit ''error'' [(''message'', JStr e)]] \<and>
         stats_jsonl (fst (handle_audio_data E sid data w)) = stats_jsonl w \<and>
         (\<not> (\<exists>a bs t p. py_get data (ascii ''audio'') = Inr a \<and> truthy a \<and>
                b64decode E a = Inr bs \<and> speech_to_text E bs = Inr t \<and> \<not> blank t \<and>
                build_booking_system_prompt E (fst (get_or_create_session sid (sessions w))) =
                  Inr p) \<longrightarrow>
            (\<forall>c. hist (fst (handle_audio_data E sid data w)) c = hist w c) \<and>
            (\<forall>c s. sessions w c = Some s \<longrightarrow>
               sessions (fst (handle_audio_data E sid data w)) c = Some s)) \<and>
         ((\<forall>a bs t. py_get data (ascii ''audio'') = Inr a \<and> b64decode E a = Inr bs \<longrightarrow>
              speech_to_text E bs \<noteq> Inr t) \<longrightarrow>
            sessions (fst (handle_audio_data E sid data w)) = sessions w) \<and>
         ((\<exists>a bs t p. py_get data (ascii ''audio'') = Inr a \<and> truthy a \<and>
              b64decode E a = Inr bs \<and> speech_to_text E bs = Inr t \<and> \<not> blank t \<and>
              build_booking_system_prompt E (fst (get_or_create_session sid (sessions w))) =
                Inr p) \<longrightarrow>
            open_stats E = Some e)"
proof (cases rule: turn_cases [where data = data and E = E and sid = sid and w = w])
  case (malformed e')
  with assms have "e' = e" by (simp add: audio_turn_def Let_def)
  with malformed show ?thesis
    by (simp add: not_dict emit_def logger_def hist_def)
next
  case (absent a)
  with assms show ?thesis by (simp add: audio_turn_def Let_def)
next
  case (undecodable a e')
  with assms have "e' = e" by (simp add: audio_turn_def Let_def)
  with undecodable show ?thesis
    by (simp add: decode_fail emit_def logger_def hist_def)
next
  case (untranscribed a bs e')
  with assms have "e' = e" by (simp add: audio_turn_def Let_def logger_def)
  with untranscribed show ?thesis
    by (simp add: stt_fail emit_def logger_def hist_def)
next
  case (unheard a bs t)
  with assms show ?thesis
    by (simp add: audio_turn_def Let_def logger_def emit_def strip_Nil_iff)
next
  case (unprompted a bs t e')
  with assms not_blank_nonempty [of t] have "e' = e"
    by (simp add: audio_turn_def Let_def logger_def strip_Nil_iff split_beta)
  with unprompted have
    "outbox (fst (handle_audio_data E sid data w)) =
       outbox w @ [Emit ''error'' [(''message'', JStr e)]]"
    "stats_jsonl (fst (handle_audio_data E sid data w)) = stats_jsonl w"
    "sessions (fst (handle_audio_data E sid data w)) =
       snd (get_or_create_session sid (sessions w))"
    by (simp_all add: prompt_fail emit_def logger_def)
  with unprompted show ?thesis
    by (simp add: hist_get_or_create get_or_create_session_keeps)
next
  case (generated a bs t p)
  with assms not_blank_nonempty [of t] have "open_stats E = Some e"
    by (simp add: audio_turn_def Let_def logger_def emit_def strip_Nil_iff split_beta
        split: option.splits)
  with generation_path [where data = data, OF generated] generated show ?thesis
    by (simp add: Let_def emit_def logger_def)
qed

theorem failed_turn_witness:
  "fst (audio_turn stt_down_readonly_env sample_sid sample_data one_session_world) =
     Inl (ascii ''timeout'') \<and>
   open_stats stt_down_readonly_env = Some (ascii ''Permission denied'') \<and>
   \<not> (\<exists>a bs t p. py_get sample_data (ascii ''audio'') = Inr a \<and> truthy a \<and>
         b64decode stt_down_readonly_env a = Inr bs \<and>
         speech_to_text stt_down_readonly_env bs = Inr t \<and> \<not> blank t \<and>
         build_booking_system_prompt stt_down_readonly_env
           (fst (get_or_create_session sample_sid (sessions one_session_world))) = Inr p) \<and>
   outbox (fst (handle_audio_data stt_down_readonly_env sample_sid sample_data
       one_session_world)) =
     outbox one_session_world @ [Emit ''error'' [(''message'', JStr (ascii ''timeout''))]] \<and>
   stats_jsonl (fst (handle_audio_data stt_down_readonly_env sample_sid sample_data
       one_session_world)) = stats_jsonl one_session_world \<and>
   (\<forall>c. hist (fst (handle_audio_data stt_down_readonly_env sample_sid sample_data
       one_session_world)) c = hist one_session_world c) \<and>
   sessions one_session_world sample_sid = Some sample_session \<and>
   sessions (fst (handle_audio_data stt_down_readonly_env sample_sid sample_data
       one_session_world)) sample_sid = Some sample_session \<and>
   sessions (fst (handle_audio_data stt_down_readonly_env sample_sid sample_data
       one_session_world)) = sessions one_session_world"
proof -
  have h: "fst (audio_turn stt_down_readonly_env sample_sid sample_data one_session_world) =
      Inl (ascii ''timeout'')"
    by (simp add: audio_turn_def Let_def logger_def stt_down_readonly_env_def stt_down_env_def
        sample_env_def sample_data_def py_get_def ascii_def)
  have stt: "speech_to_text stt_down_readonly_env bs \<noteq> Inr t" for bs t
    by (simp add: stt_down_readonly_env_def stt_down_env_def)
  have ro: "open_stats stt_down_readonly_env = Some (ascii ''Permission denied'')"
    by (simp add: stt_down_readonly_env_def)
  have s: "sessions one_session_world sample_sid = Some sample_session"
    by (simp add: one_session_world_def)
  show ?thesis
    using h stt ro s failed_turn [OF h] by simp
qed

subsection \<open>The transcription latency stage\<close>

text \<open>
  C7, as stated, fails: when the transcription call raises, control leaves the \<^verbatim>\<open>try\<close>
  block before the assignment to \<^verbatim>\<open>latency_info['asr_transcription']\<close>; the stage keeps
  its initial value 0 although 100 ms have passed, and nothing is written to the metrics log.
\<close>

theorem asr_stage_lost_on_failure:
  "speech_to_text stt_down_env [82, 73, 70, 70] = Inl (ascii ''timeout'') \<and>
   (now stt_down_env 2 - now stt_down_env 1) * 1000 = 100 \<and>
   asr_transcription (snd (handle_audio_data stt_down_env sample_sid sample_data empty_world)) = 0 \<and>
   stats_jsonl (fst (handle_audio_data stt_down_env sample_sid sample_data empty_world)) = []"
  by (simp add: turn_defs stt_down_env_def sample_env_def sample_data_def py_get_def empty_world_def
      ascii_def)

text \<open>
  C7, amended. For every turn that enters the TRANSCRIBING stage, the asr latency stage is
  recorded when the transcription gateway call returns: \<^verbatim>\<open>latency_info['asr_transcription']\<close>
  is then the time between the two clock readings around the call, in milliseconds. When the
  call raises, the stage is left at its initial value 0 and no metrics record is written.
\<close>

theorem asr_stage_recorded_on_return:
  assumes "py_get data (ascii ''audio'') = Inr a" and "truthy a" and "b64decode E a = Inr bs"
  shows "(\<forall>t. speech_to_text E bs = Inr t \<longrightarrow>
            asr_transcription (snd (handle_audio_data E sid data w)) =
              (now E 2 - now E 1) * 1000) \<and>
         (\<forall>e. speech_to_text E bs = Inl e \<longrightarrow>
            asr_transcription (snd (handle_audio_data E sid data w)) = 0 \<and>
            stats_jsonl (fst (handle_audio_data E sid data w)) = stats_jsonl w)"
proof (intro conjI allI impI)
  fix e assume "speech_to_text E bs = Inl e"
  with assms have "handle_audio_data E sid data w =
     (emit ''error'' [(''message'', JStr e)]
        (logger ''error'' (ascii ''Error: '' @ e)
           (logger ''info'' (ascii ''Transcribing WebM audio directly...'') w)),
      \<lparr>audio_conversion = 0, vad_validation = 0, silence_trimming = 0,
          asr_transcription = 0, llm_response = 0\<rparr>)"
    by (rule stt_fail [where data = data])
  then show "asr_transcription (snd (handle_audio_data E sid data w)) = 0"
    and "stats_jsonl (fst (handle_audio_data E sid data w)) = stats_jsonl w"
    by (simp_all add: emit_def logger_def)
next
  fix t assume t: "speech_to_text E bs = Inr t"
  show "asr_transcription (snd (handle_audio_data E sid data w)) = (now E 2 - now E 1) * 1000"
  proof (cases "blank t")
    case True
    with assms t show ?thesis by (simp add: empty_speech)
  next
    case nb: False
    show ?thesis
    proof (cases "build_booking_system_prompt E (fst (get_or_create_session sid (sessions w)))")
      case (Inl e)
      with assms t nb show ?thesis by (simp add: prompt_fail)
    next
      case (Inr p)
      with assms t nb show ?thesis
        by (simp add: generation_path [where data = data and a = a and bs = bs and p = p]
            Let_def split: option.splits)
    qed
  qed
qed

theorem asr_stage_recorded_on_return_witness:
  "py_get sample_data (ascii ''audio'') = Inr (PStr (ascii ''UklGRg=='')) \<and> truthy (PStr (ascii ''UklGRg=='')) \<and>
   b64decode sample_env (PStr (ascii ''UklGRg=='')) = Inr [82, 73, 70, 70] \<and>
   speech_to_text sample_env [82, 73, 70, 70] = Inr (ascii ''hello'') \<and>
   asr_transcription (snd (handle_audio_data sample_env sample_sid sample_data empty_world)) =
     (now sample_env 2 - now sample_env 1) * 1000 \<and>
   b64decode stt_down_env (PStr (ascii ''UklGRg=='')) = Inr [82, 73, 70, 70] \<and>
   speech_to_text stt_down_env [82, 73, 70, 70] = Inl (ascii ''timeout'') \<and>
   asr_transcription (snd (handle_audio_data stt_down_env sample_sid sample_data empty_world)) = 0 \<and>
   stats_jsonl (fst (handle_audio_data stt_down_env sample_sid sample_data empty_world)) =
     stats_jsonl empty_world"
  using sample_audio sample_audio_nonempty sample_turn_facts(1,2) stt_down_facts(1,2)
    asr_stage_recorded_on_return [where data = sample_data and E = sample_env
      and sid = sample_sid and w = empty_world,
      OF sample_audio sample_audio_nonempty sample_turn_facts(1)]
    asr_stage_recorded_on_return [where data = sample_data and E = stt_down_env
      and sid = sample_sid and w = empty_world,
      OF sample_audio sample_audio_nonempty stt_down_facts(1)]
  by simp

subsection \<open>The fields of a response\<close>

text \<open>
  C8, as stated, fails: the \<^verbatim>\<open>bot_response\<close> emitted on the empty-speech path has the two
  fields \<^verbatim>\<open>user_text\<close> and \<^verbatim>\<open>bot_text\<close> only; it has no \<^verbatim>\<open>latency_ms\<close>.
\<close>

theorem empty_speech_response_lacks_latency:
  "outbox (fst (handle_audio_data silent_env sample_sid sample_data empty_world)) =
     [Emit ''bot_response''
        [(''user_text'', JStr (ascii ''...'')), (''bot_text'', JStr unclear_text)]] \<and>
   map_of [(''user_text'', JStr (ascii ''...'')), (''bot_text'', JStr unclear_text)]
     ''latency_ms'' = None"
  by (simp add: turn_defs silent_env_def sample_env_def sample_data_def py_get_def empty_world_def
      ascii_def strip_def isspace_def)

text \<open>
  C8, amended. Every outbound \<^verbatim>\<open>bot_response\<close> event carries the fields \<^verbatim>\<open>user_text\<close>
  (string) and \<^verbatim>\<open>bot_text\<close> (string). The one emitted when a turn completes also carries
  \<^verbatim>\<open>latency_ms\<close> containing an integer \<^verbatim>\<open>backend\<close> field; the only one without it is the
  fixed reply of the empty-speech path.
\<close>

theorem bot_response_fields:
  assumes "outbox (fst (handle_audio_data E sid data w)) = outbox w @ evs"
    and "Emit ''bot_response'' p \<in> set evs"
  shows "(\<exists>u b. map_of p ''user_text'' = Some (JStr u) \<and> map_of p ''bot_text'' = Some (JStr b)) \<and>
         ((\<exists>k. map_of p ''latency_ms'' = Some (JObj [(''backend'', JInt k)])) \<or>
          p = [(''user_text'', JStr (ascii ''...'')), (''bot_text'', JStr unclear_text)])"
proof (cases rule: turn_cases [where data = data and E = E and sid = sid and w = w])
  case (malformed e)
  with assms show ?thesis by (auto simp: not_dict emit_def logger_def)
next
  case (absent a)
  with assms show ?thesis by (simp add: no_audio)
next
  case (undecodable a e)
  with assms show ?thesis by (auto simp: decode_fail emit_def logger_def)
next
  case (untranscribed a bs e)
  with assms show ?thesis by (auto simp: stt_fail emit_def logger_def)
next
  case (unheard a bs t)
  with assms show ?thesis by (auto simp: empty_speech emit_def logger_def)
next
  case (unprompted a bs t e)
  with assms show ?thesis by (auto simp: prompt_fail emit_def logger_def)
next
  case (generated a bs t p')
  from generation_path [where data = data, OF generated] assms show ?thesis
    by (auto simp: Let_def emit_def logger_def split: option.splits)
qed

theorem bot_response_fields_witness:
  "outbox (fst (handle_audio_data sample_env sample_sid sample_data empty_world)) =
     outbox empty_world @ [Emit ''bot_response'' [(''user_text'', JStr (ascii ''hello'')),
         (''bot_text'', JStr (ascii ''hi'')), (''latency_ms'', JObj [(''backend'', JInt 500)])]] \<and>
   Emit ''bot_response'' [(''user_text'', JStr (ascii ''hello'')),
         (''bot_text'', JStr (ascii ''hi'')), (''latency_ms'', JObj [(''backend'', JInt 500)])]
     \<in> set [Emit ''bot_response'' [(''user_text'', JStr (ascii ''hello'')),
         (''bot_text'', JStr (ascii ''hi'')), (''latency_ms'', JObj [(''backend'', JInt 500)])]] \<and>
   (\<exists>u b. map_of [(''user_text'', JStr (ascii ''hello'')),
         (''bot_text'', JStr (ascii ''hi'')), (''latency_ms'', JObj [(''backend'', JInt 500)])]
         ''user_text'' = Some (JStr u) \<and>
      map_of [(''user_text'', JStr (ascii ''hello'')),
         (''bot_text'', JStr (ascii ''hi'')), (''latency_ms'', JObj [(''backend'', JInt 500)])]
         ''bot_text'' = Some (JStr b)) \<and>
   (\<exists>k. map_of [(''user_text'', JStr (ascii ''hello'')),
         (''bot_text'', JStr (ascii ''hi'')), (''latency_ms'', JObj [(''backend'', JInt 500)])]
         ''latency_ms'' = Some (JObj [(''backend'', JInt k)]))"
proof -
  let ?p = "[(''user_text'', JStr (ascii ''hello'')),
         (''bot_text'', JStr (ascii ''hi'')), (''latency_ms'', JObj [(''backend'', JInt 500)])]"
  have h1: "outbox (fst (handle_audio_data sample_env sample_sid sample_data empty_world)) =
     outbox empty_world @ [Emit ''bot_response'' ?p]"
    unfolding sample_turn by (simp add: empty_world_def)
  have h2: "Emit ''bot_response'' ?p \<in> set [Emit ''bot_response'' ?p]"
    by simp
  show ?thesis
    using h1 h2 bot_response_fields [OF h1 h2] by simp
qed

subsection \<open>History accumulation\<close>

text \<open>
  C9. The Session history is append-only and keeps the order of the turns: a completed turn
  (one that emits the response with its latency) appends exactly one
  (user utterance, assistant reply) pair, so after two consecutive completed turns of a
  connection the history of its Session is the former history followed by the two pairs in
  the order the turns were processed; for a new Session it has length 2.
\<close>

theorem history_accumulates:
  assumes "outbox (fst (handle_audio_data E1 sid d1 w)) =
      outbox w @ [Emit ''bot_response''
        [(''user_text'', JStr t1), (''bot_text'', JStr r1), (''latency_ms'', l1)]]"
    and "outbox (fst (handle_audio_data E2 sid d2 (fst (handle_audio_data E1 sid d1 w)))) =
      outbox (fst (handle_audio_data E1 sid d1 w)) @ [Emit ''bot_response''
        [(''user_text'', JStr t2), (''bot_text'', JStr r2), (''latency_ms'', l2)]]"
  shows "(\<exists>s. sessions (fst (handle_audio_data E1 sid d1 w)) sid = Some s \<and>
            history s = hist w sid @ [(t1, r1)]) \<and>
         (\<exists>s. sessions (fst (handle_audio_data E2 sid d2 (fst (handle_audio_data E1 sid d1 w))))
                 sid = Some s \<and>
            history s = hist w sid @ [(t1, r1), (t2, r2)] \<and>
            length (history s) = length (hist w sid) + 2)"
proof -
  let ?w1 = "fst (handle_audio_data E1 sid d1 w)"
  let ?w2 = "fst (handle_audio_data E2 sid d2 ?w1)"
  from completed_appends [OF assms(1)]
  obtain s1 where s1: "sessions ?w1 sid = Some s1" "history s1 = hist w sid @ [(t1, r1)]"
    by blast
  from completed_appends [OF assms(2)]
  obtain s2 where s2: "sessions ?w2 sid = Some s2" "history s2 = hist ?w1 sid @ [(t2, r2)]"
    by blast
  from s1 have "hist ?w1 sid = hist w sid @ [(t1, r1)]"
    by (simp add: hist_Some)
  with s2 have "history s2 = hist w sid @ [(t1, r1), (t2, r2)]"
    by simp
  with s1 s2(1) show ?thesis by simp
qed

theorem history_accumulates_witness:
  "outbox first_world =
      outbox empty_world @ [Emit ''bot_response''
        [(''user_text'', JStr (ascii ''hello'')), (''bot_text'', JStr (ascii ''hi'')),
         (''latency_ms'', JObj [(''backend'', JInt 500)])]] \<and>
   outbox second_world =
      outbox first_world @ [Emit ''bot_response''
        [(''user_text'', JStr (ascii ''hello'')), (''bot_text'', JStr busy_text),
         (''latency_ms'', JObj [(''backend'', JInt 500)])]] \<and>
   (\<exists>s. sessions first_world sample_sid = Some s \<and>
      history s = hist empty_world sample_sid @ [(ascii ''hello'', ascii ''hi'')]) \<and>
   (\<exists>s. sessions second_world sample_sid = Some s \<and>
      history s = hist empty_world sample_sid @
        [(ascii ''hello'', ascii ''hi''), (ascii ''hello'', busy_text)] \<and>
      length (history s) = length (hist empty_world sample_sid) + 2)"
proof -
  have h1: "outbox (fst (handle_audio_data sample_env sample_sid sample_data empty_world)) =
      outbox empty_world @ [Emit ''bot_response''
        [(''user_text'', JStr (ascii ''hello'')), (''bot_text'', JStr (ascii ''hi'')),
         (''latency_ms'', JObj [(''backend'', JInt 500)])]]"
    using first_world by (simp add: first_world_def empty_world_def)
  have h2: "outbox (fst (handle_audio_data llm_down_env sample_sid sample_data
        (fst (handle_audio_data sample_env sample_sid sample_data empty_world)))) =
      outbox (fst (handle_audio_data sample_env sample_sid sample_data empty_world)) @
        [Emit ''bot_response''
          [(''user_text'', JStr (ascii ''hello'')), (''bot_text'', JStr busy_text),
           (''latency_ms'', JObj [(''backend'', JInt 500)])]]"
    using second_world by (simp add: second_world_def first_world_def)
  show ?thesis
    using h1 h2 history_accumulates [OF h1 h2]
    by (simp add: second_world_def first_world_def)
qed

subsection \<open>The Session Store before a transcript exists\<close>

text \<open>
  C10. The Session Store is consulted, and a Session possibly created, only after the
  transcription has yielded text that is not blank: an \<^verbatim>\<open>audio_data\<close> event whose
  \<^verbatim>\<open>audio\<close> field is absent or empty (or whose payload has no fields at all), or whose
  transcript is empty or whitespace-only, leaves the Session Store unchanged; and whenever a
  turn changes the Store, its audio was decoded and transcribed to a text that is not blank.
\<close>

theorem store_untouched_before_transcript:
  "(((\<exists>e. py_get data (ascii ''audio'') = Inl e) \<or>
     (\<exists>a. py_get data (ascii ''audio'') = Inr a \<and> \<not> truthy a) \<or>
     (\<exists>a bs t. py_get data (ascii ''audio'') = Inr a \<and> b64decode E a = Inr bs \<and>
        speech_to_text E bs = Inr t \<and> blank t)) \<longrightarrow>
      sessions (fst (handle_audio_data E sid data w)) = sessions w) \<and>
   (sessions (fst (handle_audio_data E sid data w)) \<noteq> sessions w \<longrightarrow>
      (\<exists>a bs t. py_get data (ascii ''audio'') = Inr a \<and> truthy a \<and>
         b64decode E a = Inr bs \<and> speech_to_text E bs = Inr t \<and> \<not> blank t))"
proof (cases rule: turn_cases [where data = data and E = E and sid = sid and w = w])
  case (malformed e)
  then show ?thesis by (simp add: not_dict emit_def logger_def)
next
  case (absent a)
  then show ?thesis by (simp add: no_audio)
next
  case (undecodable a e)
  then show ?thesis by (simp add: decode_fail emit_def logger_def)
next
  case (untranscribed a bs e)
  then show ?thesis by (simp add: stt_fail emit_def logger_def)
next
  case (unheard a bs t)
  then show ?thesis by (simp add: empty_speech emit_def logger_def)
next
  case (unprompted a bs t e)
  then show ?thesis by auto
next
  case (generated a bs t p)
  then show ?thesis by auto
qed

theorem store_untouched_before_transcript_witness:
  "((\<exists>e. py_get (PDict []) (ascii ''audio'') = Inl e) \<or>
    (\<exists>a. py_get (PDict []) (ascii ''audio'') = Inr a \<and> \<not> truthy a) \<or>
    (\<exists>a bs t. py_get (PDict []) (ascii ''audio'') = Inr a \<and> b64decode sample_env a = Inr bs \<and>
        speech_to_text sample_env bs = Inr t \<and> blank t)) \<and>
   sessions (fst (handle_audio_data sample_env sample_sid (PDict []) empty_world)) =
     sessions empty_world \<and>
   sessions (fst (handle_audio_data sample_env sample_sid sample_data empty_world)) \<noteq>
     sessions empty_world \<and>
   (\<exists>a bs t. py_get sample_data (ascii ''audio'') = Inr a \<and> truthy a \<and>
      b64decode sample_env a = Inr bs \<and> speech_to_text sample_env bs = Inr t \<and> \<not> blank t)"
proof -
  have changed: "sessions (fst (handle_audio_data sample_env sample_sid sample_data empty_world)) \<noteq>
      sessions empty_world"
  proof -
    have s1: "sessions (fst (handle_audio_data sample_env sample_sid sample_data empty_world)) =
        [sample_sid \<mapsto> sample_session]"
      by (simp add: sample_turn)
    have s2: "sessions empty_world = Map.empty"
      by (simp add: empty_world_def)
    show ?thesis unfolding s1 s2 by simp
  qed
  have absent: "\<exists>a. py_get (PDict []) (ascii ''audio'') = Inr a \<and> \<not> truthy a"
    by (simp add: py_get_def)
  show ?thesis
    using changed absent
      store_untouched_before_transcript [of "PDict []" sample_env sample_sid empty_world]
      store_untouched_before_transcript [of sample_data sample_env sample_sid empty_world]
    by blast
qed

end
